theory Spec2Isabelle
  imports Complex_Main "HOL-Library.Word" "HOL-Library.Multiset"
begin

section \<open>Python values shared by the modules\<close>

text \<open>
  Exceptions are values. Only the classes that the handlers of the sources tell apart are
  kept: \<open>KeyboardInterrupt\<close> is a \<open>BaseException\<close> and passes every
  \<open>except Exception\<close> clause; the others are caught by them.
\<close>

datatype exn =
    KeyboardInterrupt
  | RuntimeError
  | ValueError
  | FileNotFoundError
  | IOError
  | IndexError
  | SerialException
  | SerialTimeoutException
  | OtherException

definition is_Exception :: "exn \<Rightarrow> bool" where
  "is_Exception e = (e \<noteq> KeyboardInterrupt)"

type_synonym bytes = "8 word list"

section \<open>utils/uv\_controller.py\<close>

text \<open>
  \<open>UVcontroller\<close> holds \<open>self.serial\<close> (None, or a port object whose
  \<open>is_open\<close> attribute is read) and the flag \<open>self._is_connected\<close>.
\<close>

record serial_port =
  is_open :: bool

record uv_controller =
  serial :: "serial_port option"
  uv_connected_flag :: bool

definition UVcontroller_init :: uv_controller where
  "UVcontroller_init = \<lparr>serial = None, uv_connected_flag = False\<rparr>"

text \<open>\<open>is_connected\<close>: \<open>self._is_connected and self.serial and self.serial.is_open\<close>.\<close>

definition uv_is_connected :: "uv_controller \<Rightarrow> bool" where
  "uv_is_connected uv =
     (uv_connected_flag uv \<and> (case serial uv of None \<Rightarrow> False | Some p \<Rightarrow> is_open p))"

text \<open>
  What the serial device does during one exchange (reset the buffers, write, wait, read
  all) is not decided by the program: either some call raises, or \<open>read_all\<close>
  yields the bytes that arrived.
\<close>

datatype serial_io = Response bytes | Raises exn

definition serial_exchange :: "serial_io \<Rightarrow> exn + bytes" where
  "serial_exchange io = (case io of Response r \<Rightarrow> Inr r | Raises e \<Rightarrow> Inl e)"

text \<open>
  \<open>send_command\<close>: empty bytes when not connected; otherwise the exchange, with
  the three \<open>except\<close> clauses (timeout, serial error, any other \<open>Exception\<close>)
  each returning empty bytes. A \<open>KeyboardInterrupt\<close> is not an \<open>Exception\<close>
  and would leave the function; it is the only value for which the result is \<open>Inl\<close>.
\<close>

definition send_command :: "uv_controller \<Rightarrow> bytes \<Rightarrow> serial_io \<Rightarrow> exn + bytes" where
  "send_command uv command io =
     (if \<not> uv_is_connected uv then Inr []
      else (case serial_exchange io of
              Inr response \<Rightarrow> Inr response
            | Inl e \<Rightarrow>
                if e = SerialTimeoutException then Inr []
                else if e = SerialException then Inr []
                else if is_Exception e then Inr []
                else Inl e))"

definition uv_on_cmd :: bytes where
  "uv_on_cmd = [0xA5, 0xC0, 0x01, 0x66]"

definition uv_off_cmd :: bytes where
  "uv_off_cmd = [0xA5, 0xC1, 0x01, 0x67]"

text \<open>
  \<open>uv_on\<close> and \<open>uv_off\<close>: \<open>if not response: return False\<close>, else
  \<open>return True\<close>; the response is only written to the log.
\<close>

definition uv_on :: "uv_controller \<Rightarrow> serial_io \<Rightarrow> exn + bool" where
  "uv_on uv io =
     (case send_command uv uv_on_cmd io of
        Inl e \<Rightarrow> Inl e
      | Inr response \<Rightarrow> if response = [] then Inr False else Inr True)"

definition uv_off :: "uv_controller \<Rightarrow> serial_io \<Rightarrow> exn + bool" where
  "uv_off uv io =
     (case send_command uv uv_off_cmd io of
        Inl e \<Rightarrow> Inl e
      | Inr response \<Rightarrow> if response = [] then Inr False else Inr True)"

text \<open>
  \<open>connect\<close>: an open port is kept; otherwise \<open>serial.Serial(...)\<close> either
  yields an open port or raises, and both \<open>except\<close> clauses reset the fields.
\<close>

definition uv_connect :: "uv_controller \<Rightarrow> exn option \<Rightarrow> bool \<times> uv_controller" where
  "uv_connect uv port_error =
     (if (case serial uv of None \<Rightarrow> False | Some p \<Rightarrow> is_open p)
      then (True, uv\<lparr>uv_connected_flag := True\<rparr>)
      else (case port_error of
              None \<Rightarrow> (True, \<lparr>serial = Some \<lparr>is_open = True\<rparr>, uv_connected_flag = True\<rparr>)
            | Some e \<Rightarrow> (False, \<lparr>serial = None, uv_connected_flag = False\<rparr>)))"

text \<open>
  \<open>disconnect\<close>: an open port is closed inside \<open>try/except Exception/finally\<close>,
  the \<open>finally\<close> clearing both fields whether \<open>close\<close> raised or not; in every
  case the flag is cleared at the end. A port object that is not open is kept.
\<close>

definition uv_disconnect :: "uv_controller \<Rightarrow> uv_controller" where
  "uv_disconnect uv =
     (if (case serial uv of None \<Rightarrow> False | Some p \<Rightarrow> is_open p)
      then \<lparr>serial = None, uv_connected_flag = False\<rparr>
      else uv\<lparr>uv_connected_flag := False\<rparr>)"

section \<open>utils/motion\_system.py\<close>

datatype stage = KinesisMotor string

record motion_system =
  x_serial :: string
  y_serial :: string
  stage_x :: "stage option"
  stage_y :: "stage option"
  ms_connected_flag :: bool

definition MotionSystem_init :: "string \<Rightarrow> string \<Rightarrow> motion_system" where
  "MotionSystem_init xs ys =
     \<lparr>x_serial = xs, y_serial = ys, stage_x = None, stage_y = None, ms_connected_flag = False\<rparr>"

text \<open>
  What the two devices do is not decided by the program: whether opening a stage and
  closing a stage raise.
\<close>

record stage_io =
  x_open_raises :: bool
  y_open_raises :: bool
  x_close_raises :: bool
  y_close_raises :: bool

text \<open>A call either returns a value or lets an exception out.\<close>

datatype 'a outcome = Returned 'a | Raised exn

text \<open>
  The \<open>except Exception\<close> clause of \<open>connect\<close>: close whichever handle is set,
  then clear the three fields and return False. The two \<open>close\<close> calls are not
  guarded: when one raises, the exception leaves \<open>connect\<close> before the fields are
  cleared.
\<close>

definition connect_handler :: "motion_system \<Rightarrow> stage_io \<Rightarrow> bool outcome \<times> motion_system" where
  "connect_handler ms io =
     (if stage_x ms \<noteq> None \<and> x_close_raises io then (Raised OtherException, ms)
      else if stage_y ms \<noteq> None \<and> y_close_raises io then (Raised OtherException, ms)
      else (Returned False, ms\<lparr>stage_x := None, stage_y := None, ms_connected_flag := False\<rparr>))"

definition ms_connect :: "motion_system \<Rightarrow> stage_io \<Rightarrow> bool outcome \<times> motion_system" where
  "ms_connect ms io =
     (if ms_connected_flag ms then (Returned True, ms)
      else if x_open_raises io then connect_handler ms io
      else let ms1 = ms\<lparr>stage_x := Some (KinesisMotor (x_serial ms))\<rparr> in
        if y_open_raises io then connect_handler ms1 io
        else (Returned True,
              ms1\<lparr>stage_y := Some (KinesisMotor (y_serial ms)), ms_connected_flag := True\<rparr>))"

text \<open>
  \<open>disconnect\<close>: returns at once when the flag is not set. Otherwise the
  \<open>try\<close> block closes the handles that are set (the first \<open>close\<close> that raises
  ends the block), \<open>except Exception\<close> logs, and \<open>finally\<close> clears the fields.
\<close>

definition close_stages :: "motion_system \<Rightarrow> stage_io \<Rightarrow> exn option" where
  "close_stages ms io =
     (if stage_x ms \<noteq> None \<and> x_close_raises io then Some OtherException
      else if stage_y ms \<noteq> None \<and> y_close_raises io then Some OtherException
      else None)"

definition ms_disconnect :: "motion_system \<Rightarrow> stage_io \<Rightarrow> motion_system" where
  "ms_disconnect ms io =
     (if \<not> ms_connected_flag ms then ms
      else (case close_stages ms io of
              None \<Rightarrow> ms\<lparr>stage_x := None, stage_y := None, ms_connected_flag := False\<rparr>
            | Some e \<Rightarrow> ms\<lparr>stage_x := None, stage_y := None, ms_connected_flag := False\<rparr>))"

definition ms_is_connected :: "motion_system \<Rightarrow> bool" where
  "ms_is_connected ms = (ms_connected_flag ms \<and> stage_x ms \<noteq> None \<and> stage_y ms \<noteq> None)"

text \<open>
  \<open>move_to_um\<close>: False when not connected; otherwise the moves and waits run inside
  \<open>try/except Exception\<close>, so the result is whether the devices completed them.
\<close>

definition move_to_um :: "motion_system \<Rightarrow> bool \<Rightarrow> bool" where
  "move_to_um ms device_ok = (if \<not> ms_is_connected ms then False else device_ok)"

section \<open>utils/config.py and utils/helpers.py\<close>

text \<open>
  The two timing constants of \<open>config.py\<close> that the runner reads. Python floats are
  modelled by real numbers with exact arithmetic.
\<close>

record config =
  UV_COMMAND_OVERHEAD_S :: real
  MOVE_PROCESS_OVERHEAD_S :: real

definition config_py :: config where
  "config_py = \<lparr>UV_COMMAND_OVERHEAD_S = 1.0, MOVE_PROCESS_OVERHEAD_S = 0.5\<rparr>"

text \<open>Python's \<open>round\<close> and numpy's \<open>np.round\<close>: to the nearest integer, a tie to the even one.\<close>

definition round_half_even :: "real \<Rightarrow> int" where
  "round_half_even x =
     (if x - of_int \<lfloor>x\<rfloor> < 1/2 then \<lfloor>x\<rfloor>
      else if 1/2 < x - of_int \<lfloor>x\<rfloor> then \<lfloor>x\<rfloor> + 1
      else if even \<lfloor>x\<rfloor> then \<lfloor>x\<rfloor> else \<lfloor>x\<rfloor> + 1)"

text \<open>
  \<open>seconds_to_hms\<close>: negative input gives \<open>(0, 0, 0)\<close>; otherwise two
  \<open>divmod\<close>s, \<open>int\<close> of the quotients and \<open>int(round(...))\<close> of the rest.
\<close>

definition seconds_to_hms :: "real \<Rightarrow> int \<times> int \<times> int" where
  "seconds_to_hms seconds =
     (if seconds < 0 then (0, 0, 0)
      else let hours = \<lfloor>seconds / 3600\<rfloor>;
               remainder = seconds - 3600 * of_int hours;
               minutes = \<lfloor>remainder / 60\<rfloor>;
               seconds_rem = remainder - 60 * of_int minutes
           in (hours, minutes, round_half_even seconds_rem))"

section \<open>utils/experiment\_runner.py\<close>

subsection \<open>The coordinate file and \<open>np.loadtxt\<close>\<close>

text \<open>
  The file at \<open>input_file\<close>: absent, or text. The text is given by its non-blank
  lines (the loader skips blank ones), each split at the commas; a field is the number
  it denotes, or \<open>None\<close> when \<open>float\<close> rejects it.
\<close>

datatype coord_file = NoSuchFile | TextFile "real option list list"

datatype ndarray = Arr0 real | Arr1 "real list" | Arr2 "real list list"

fun ndim :: "ndarray \<Rightarrow> nat" where
  "ndim (Arr0 v) = 0"
| "ndim (Arr1 xs) = 1"
| "ndim (Arr2 rows) = 2"

text \<open>\<open>shape[0]\<close> and \<open>shape[1]\<close>, where the array has them.\<close>

fun shape0 :: "ndarray \<Rightarrow> nat" where
  "shape0 (Arr0 v) = 0"
| "shape0 (Arr1 xs) = length xs"
| "shape0 (Arr2 rows) = length rows"

fun shape1 :: "ndarray \<Rightarrow> nat" where
  "shape1 (Arr2 (r # rows)) = length r"
| "shape1 a = 0"

text \<open>\<open>a.reshape(1, -1)\<close> of a one-dimensional array: one row holding all of it.\<close>

fun reshape_one_row :: "ndarray \<Rightarrow> ndarray" where
  "reshape_one_row (Arr1 xs) = Arr2 [xs]"
| "reshape_one_row (Arr0 v) = Arr2 [[v]]"
| "reshape_one_row (Arr2 rows) = Arr2 [concat rows]"

text \<open>
  \<open>np.loadtxt(file, delimiter=',')\<close> with its default \<open>ndmin=0\<close>: a field that is
  not a number, or a line whose number of fields differs from the first line's, raises
  \<open>ValueError\<close>; no line at all gives an empty one-dimensional array; otherwise the
  table is squeezed, so that axes of length one disappear: one line of one field is a
  scalar, one line is the vector of its fields, and a single column is the vector of
  that column.
\<close>

definition loadtxt :: "real option list list \<Rightarrow> exn + ndarray" where
  "loadtxt lines =
     (if \<exists>l \<in> set lines. \<exists>f \<in> set l. f = None then Inl ValueError
      else (case map (map the) lines of
              [] \<Rightarrow> Inr (Arr1 [])
            | r # rs \<Rightarrow>
                if \<exists>r' \<in> set rs. length r' \<noteq> length r then Inl ValueError
                else if rs = [] \<and> length r = 1 then Inr (Arr0 (hd r))
                else if rs = [] then Inr (Arr1 r)
                else if length r = 1 then Inr (Arr1 (map hd (r # rs)))
                else Inr (Arr2 (r # rs))))"

subsection \<open>The runner\<close>

record experiment_runner =
  motion_system :: motion_system
  uv_controller :: uv_controller
  cure_time_s :: real
  coordinates :: "ndarray option"
  total_steps :: nat
  uv_command_overhead_s :: real
  move_process_overhead_s :: real

text \<open>\<open>__init__\<close>: rejects a cure time that is not positive; reads the overheads from the configuration.\<close>

definition ExperimentRunner_init ::
  "config \<Rightarrow> motion_system \<Rightarrow> uv_controller \<Rightarrow> real \<Rightarrow> exn + experiment_runner" where
  "ExperimentRunner_init cfg ms uv cure =
     (if cure \<le> 0 then Inl ValueError
      else Inr \<lparr>motion_system = ms, uv_controller = uv, cure_time_s = cure,
                coordinates = None, total_steps = 0,
                uv_command_overhead_s = UV_COMMAND_OVERHEAD_S cfg,
                move_process_overhead_s = MOVE_PROCESS_OVERHEAD_S cfg\<rparr>)"

text \<open>
  \<open>load_coordinates\<close>, returning the result and the runner. A missing file returns
  False and leaves the fields as they are. The \<open>ValueError\<close> of the loader and the one
  raised by the shape check are both caught by the handler that resets
  \<open>coordinates\<close> and \<open>total_steps\<close>.
\<close>

definition load_coordinates :: "experiment_runner \<Rightarrow> coord_file \<Rightarrow> bool \<times> experiment_runner" where
  "load_coordinates r content =
     (case content of
        NoSuchFile \<Rightarrow> (False, r)
      | TextFile lines \<Rightarrow>
          (case loadtxt lines of
             Inl e \<Rightarrow> (False, r\<lparr>coordinates := None, total_steps := 0\<rparr>)
           | Inr loaded \<Rightarrow>
               let a = (if ndim loaded = 1 \<and> shape0 loaded \<ge> 2
                        then reshape_one_row loaded else loaded)
               in if ndim a \<noteq> 2 \<or> shape1 a < 2
                  then (False, r\<lparr>coordinates := None, total_steps := 0\<rparr>)
                  else if shape0 a = 0
                  then (False, r\<lparr>coordinates := Some a, total_steps := 0\<rparr>)
                  else (True, r\<lparr>coordinates := Some a, total_steps := shape0 a\<rparr>)))"

text \<open>\<open>estimate_duration\<close>: 0 without steps, else the sum as the source writes it.\<close>

definition estimate_duration :: "experiment_runner \<Rightarrow> real" where
  "estimate_duration r =
     (if total_steps r \<le> 0 then 0
      else (real (total_steps r) * (cure_time_s r + move_process_overhead_s r))
           + uv_command_overhead_s r + uv_command_overhead_s r)"

subsection \<open>The run\<close>

text \<open>
  What a run does to the hardware is recorded as the list of calls it makes on the two
  controllers, with a mark where \<open>_disconnect_hardware\<close> is entered.
\<close>

datatype event =
    Motion_connect
  | Uv_connect
  | Motion_disconnect
  | Uv_disconnect
  | Move_to real real
  | Uv_on
  | Uv_off
  | Cure_wait real
  | Cleanup

text \<open>
  What the run does not decide: the file, the devices' behaviour, and where a keyboard
  interrupt arrives inside the \<open>try\<close> block, if one does. The devices' failures are
  exceptions of class \<open>Exception\<close> (caught inside the controllers); an exchange
  with the lamp is given by the bytes read, \<open>None\<close> when the exchange failed.
\<close>

datatype interrupt_point =
    In_load
  | In_connect
  | In_uv_connect
  | In_origin_move
  | In_uv_on
  | In_move nat
  | In_cure nat

record world =
  input_file :: coord_file
  stages :: stage_io
  uv_port_error :: "exn option"
  device_move_ok :: "nat \<Rightarrow> bool"
  uv_on_reply :: "bytes option"
  uv_off_reply :: "bytes option"
  interrupt :: "interrupt_point option"

definition reply_io :: "bytes option \<Rightarrow> serial_io" where
  "reply_io reply = (case reply of None \<Rightarrow> Raises SerialException | Some b \<Rightarrow> Response b)"

text \<open>
  \<open>_connect_hardware\<close>: motion first, then UV; a failed UV connection disconnects the
  motion system; a failed check afterwards disconnects both.
\<close>

definition connect_hardware ::
  "experiment_runner \<Rightarrow> world \<Rightarrow> bool outcome \<times> experiment_runner \<times> event list" where
  "connect_hardware r w =
     (case ms_connect (motion_system r) (stages w) of
        (Raised e, ms1) \<Rightarrow> (Raised e, r\<lparr>motion_system := ms1\<rparr>, [Motion_connect])
      | (Returned motion_ok, ms1) \<Rightarrow>
          if \<not> motion_ok then (Returned False, r\<lparr>motion_system := ms1\<rparr>, [Motion_connect])
          else if interrupt w = Some In_uv_connect
          then (Raised KeyboardInterrupt, r\<lparr>motion_system := ms1\<rparr>, [Motion_connect])
          else (case uv_connect (uv_controller r) (uv_port_error w) of
                  (uv_ok, uv1) \<Rightarrow>
                    if \<not> uv_ok
                    then (Returned False,
                          r\<lparr>motion_system := ms_disconnect ms1 (stages w), uv_controller := uv1\<rparr>,
                          [Motion_connect, Uv_connect, Motion_disconnect])
                    else if \<not> ms_is_connected ms1 \<or> \<not> uv_is_connected uv1
                    then (Returned False,
                          r\<lparr>motion_system := ms_disconnect ms1 (stages w),
                            uv_controller := uv_disconnect uv1\<rparr>,
                          [Motion_connect, Uv_connect, Uv_disconnect, Motion_disconnect])
                    else (Returned True, r\<lparr>motion_system := ms1, uv_controller := uv1\<rparr>,
                          [Motion_connect, Uv_connect])))"

text \<open>
  \<open>_disconnect_hardware\<close>: the off command is sent only when the UV controller reports
  itself connected; then the UV controller and the motion system are disconnected, in
  this order.
\<close>

definition disconnect_hardware :: "experiment_runner \<Rightarrow> world \<Rightarrow> experiment_runner \<times> event list" where
  "disconnect_hardware r w =
     (let off = (if uv_is_connected (uv_controller r) then [Uv_off] else [])
      in (r\<lparr>uv_controller := uv_disconnect (uv_controller r),
            motion_system := ms_disconnect (motion_system r) (stages w)\<rparr>,
          off @ [Uv_disconnect, Motion_disconnect]))"

text \<open>
  The stepping loop, \<open>for i, row in enumerate(self.coordinates, start=1)\<close>: move, then
  wait for the cure time. The result is the exception that ended the loop, if one did.
\<close>

fun step_loop ::
  "world \<Rightarrow> experiment_runner \<Rightarrow> nat \<Rightarrow> real list list \<Rightarrow> exn option \<times> event list" where
  "step_loop w r i [] = (None, [])"
| "step_loop w r i (row # rows) =
     (if length row < 2 then (Some IndexError, [])
      else if interrupt w = Some (In_move i) then (Some KeyboardInterrupt, [])
      else if \<not> move_to_um (motion_system r) (device_move_ok w i)
      then (Some RuntimeError, [Move_to (row ! 0) (row ! 1)])
      else if interrupt w = Some (In_cure i)
      then (Some KeyboardInterrupt, [Move_to (row ! 0) (row ! 1), Cure_wait (cure_time_s r)])
      else (case step_loop w r (Suc i) rows of
              (ex, evs) \<Rightarrow> (ex, Move_to (row ! 0) (row ! 1) # Cure_wait (cure_time_s r) # evs)))"

text \<open>Iterating over \<open>self.coordinates\<close>: the rows of the two-dimensional array.\<close>

fun rows_of :: "ndarray option \<Rightarrow> real list list" where
  "rows_of (Some (Arr2 rows)) = rows"
| "rows_of a = []"

text \<open>The part of the \<open>try\<close> block after the hardware is connected.\<close>

definition run_connected ::
  "world \<Rightarrow> bool \<Rightarrow> experiment_runner \<Rightarrow> exn option \<times> event list" where
  "run_connected w start_at_origin r =
     (if start_at_origin \<and> interrupt w = Some In_origin_move then (Some KeyboardInterrupt, [])
      else if start_at_origin \<and> \<not> move_to_um (motion_system r) (device_move_ok w 0)
      then (Some RuntimeError, [Move_to 0 0])
      else let origin = (if start_at_origin then [Move_to 0 0] else []) in
        if interrupt w = Some In_uv_on then (Some KeyboardInterrupt, origin)
        else (case uv_on (uv_controller r) (reply_io (uv_on_reply w)) of
                Inl e \<Rightarrow> (Some e, origin @ [Uv_on])
              | Inr False \<Rightarrow> (Some RuntimeError, origin @ [Uv_on])
              | Inr True \<Rightarrow>
                  (case step_loop w r 1 (rows_of (coordinates r)) of
                     (ex, evs) \<Rightarrow> (ex, origin @ [Uv_on] @ evs))))"

text \<open>The \<open>try\<close> block of \<open>run\<close>.\<close>

definition run_body ::
  "experiment_runner \<Rightarrow> world \<Rightarrow> bool \<Rightarrow> exn option \<times> experiment_runner \<times> event list" where
  "run_body r w start_at_origin =
     (if interrupt w = Some In_load then (Some KeyboardInterrupt, r, [])
      else (case load_coordinates r (input_file w) of
              (loaded, r1) \<Rightarrow>
                if \<not> loaded then (Some RuntimeError, r1, [])
                else if interrupt w = Some In_connect then (Some KeyboardInterrupt, r1, [])
                else (case connect_hardware r1 w of
                        (Raised e, r2, evs) \<Rightarrow> (Some e, r2, evs)
                      | (Returned False, r2, evs) \<Rightarrow> (Some RuntimeError, r2, evs)
                      | (Returned True, r2, evs) \<Rightarrow>
                          (case run_connected w start_at_origin r2 of
                             (ex, evs2) \<Rightarrow> (ex, r2, evs @ evs2)))))"

text \<open>
  The terminal outcome: the block ran to its end, the \<open>except KeyboardInterrupt\<close>
  clause was taken, or the \<open>except Exception\<close> clause was.
\<close>

datatype terminal = Completed | Aborted | Failed

definition terminal_of :: "exn option \<Rightarrow> terminal" where
  "terminal_of ex =
     (case ex of None \<Rightarrow> Completed
      | Some e \<Rightarrow> if e = KeyboardInterrupt then Aborted else Failed)"

record run_result =
  run_success_status :: bool
  outcome :: terminal
  final :: experiment_runner
  trace :: "event list"

text \<open>\<open>run\<close>: the \<open>try\<close> block, then the \<open>finally\<close> clause.\<close>

definition run :: "experiment_runner \<Rightarrow> world \<Rightarrow> bool \<Rightarrow> run_result" where
  "run r w start_at_origin =
     (case run_body r w start_at_origin of
        (ex, r1, evs) \<Rightarrow>
          (case disconnect_hardware r1 w of
             (r2, cleanup) \<Rightarrow>
               \<lparr>run_success_status = (ex = None), outcome = terminal_of ex,
                final = r2, trace = evs @ [Cleanup] @ cleanup\<rparr>))"

section \<open>utils/path\_generator.py\<close>

text \<open>A pixel is \<open>(row, col)\<close>, as \<open>np.where\<close> gives it.\<close>

type_synonym pixel = "nat \<times> nat"

subsection \<open>The distance matrix and the routing model\<close>

text \<open>
  \<open>np.round(squareform(pdist(coords, metric='euclidean'))).astype(int)\<close>: the entry
  for two points is their Euclidean distance, rounded.
\<close>

definition euclidean :: "pixel \<Rightarrow> pixel \<Rightarrow> real" where
  "euclidean p q =
     sqrt ((real (fst p) - real (fst q))\<^sup>2 + (real (snd p) - real (snd q))\<^sup>2)"

definition int_distances :: "pixel list \<Rightarrow> nat \<Rightarrow> nat \<Rightarrow> int" where
  "int_distances coords a b = round_half_even (euclidean (coords ! a) (coords ! b))"

text \<open>
  \<open>pywrapcp.RoutingIndexManager(num_coords, 1, 0)\<close>: the index manager of the
  routing library for \<open>num_coords\<close> nodes and one vehicle with depot 0, that is, a
  vehicle whose route starts at node 0 and ends at node 0. The indices below
  \<open>num_coords\<close> stand for the nodes themselves; the route starts at index 0; the one
  further index, \<open>num_coords\<close>, is the end of the route and stands for the depot.
\<close>

definition Start :: nat where
  "Start = 0"

definition End :: "nat \<Rightarrow> nat" where
  "End num_coords = num_coords"

definition IsEnd :: "nat \<Rightarrow> nat \<Rightarrow> bool" where
  "IsEnd num_coords index = (index = End num_coords)"

definition IndexToNode :: "nat \<Rightarrow> nat \<Rightarrow> nat" where
  "IndexToNode num_coords index = (if index < num_coords then index else 0)"

text \<open>\<open>distance_callback\<close>, the arc cost evaluator registered for the vehicle.\<close>

definition distance_callback :: "pixel list \<Rightarrow> nat \<Rightarrow> nat \<Rightarrow> int" where
  "distance_callback coords from_index to_index =
     (let num_coords = length coords;
          from_node = IndexToNode num_coords from_index;
          to_node = IndexToNode num_coords to_index
      in if from_node < num_coords \<and> to_node < num_coords
         then int_distances coords from_node to_node
         else 999999)"

text \<open>
  The cost the routing library minimises: the arc cost evaluator summed over the arcs
  of the vehicle's route, from the start index through the visited indices to the end
  index. A route is given by the indices it visits before the end.
\<close>

fun arcs_cost :: "(nat \<Rightarrow> nat \<Rightarrow> int) \<Rightarrow> nat list \<Rightarrow> int" where
  "arcs_cost cost (a # b # rest) = cost a b + arcs_cost cost (b # rest)"
| "arcs_cost cost rest = 0"

definition route_cost :: "pixel list \<Rightarrow> nat list \<Rightarrow> int" where
  "route_cost coords visited =
     arcs_cost (distance_callback coords) (visited @ [End (length coords)])"

text \<open>
  The specification's objective, in its words: the rounded distances summed over the
  consecutive pairs of the visiting order only.
\<close>

definition open_tour_cost :: "pixel list \<Rightarrow> nat list \<Rightarrow> int" where
  "open_tour_cost coords order = arcs_cost (int_distances coords) order"

subsection \<open>Solving one shape\<close>

text \<open>
  What \<open>routing.SolveWithParameters\<close> does is the library's: an exception somewhere
  in the \<open>try\<close> block, no solution, or a solution, read through
  \<open>solution.Value(routing.NextVar(index))\<close>.
\<close>

datatype solver_outcome = Solver_raises | No_solution | Solution "nat \<Rightarrow> nat"

text \<open>
  The loop \<open>while not routing.IsEnd(index)\<close>, which collects the nodes of the route.
  Nothing in the program bounds it, so it is a partial function: \<open>None\<close> is a loop that
  never ends.
\<close>

partial_function (option) route_loop ::
  "nat \<Rightarrow> (nat \<Rightarrow> nat) \<Rightarrow> nat \<Rightarrow> nat list \<Rightarrow> nat list option" where
  "route_loop num_coords next_var index route_indices =
     (if IsEnd num_coords index then Some route_indices
      else route_loop num_coords next_var (next_var index)
             (route_indices @ [IndexToNode num_coords index]))"

text \<open>
  \<open>_solve_tsp_for_coords\<close>. The Python result is a list or \<open>None\<close> (no solution);
  the outer option is \<open>None\<close> when the call does not return. \<open>coords[route_indices]\<close>
  raises \<open>IndexError\<close> on an index out of range, and the handler returns \<open>None\<close>.
\<close>

definition solve_tsp_for_coords ::
  "(pixel list \<Rightarrow> solver_outcome) \<Rightarrow> pixel list \<Rightarrow> pixel list option option" where
  "solve_tsp_for_coords ortools coords =
     (let num_coords = length coords in
      if num_coords \<le> 1 then Some (Some coords)
      else (case ortools coords of
              Solver_raises \<Rightarrow> Some None
            | No_solution \<Rightarrow> Some None
            | Solution next_var \<Rightarrow>
                (case route_loop num_coords next_var Start [] of
                   None \<Rightarrow> None
                 | Some route_indices \<Rightarrow>
                     if list_all (\<lambda>i. i < num_coords) route_indices
                     then Some (Some (map (\<lambda>i. coords ! i) route_indices))
                     else Some None)))"

text \<open>
  What the routing library promises for a model over at least one node in which every
  node is mandatory: the successor values of a solution lead from the start through
  every node index exactly once and then to the end.
\<close>

definition is_route :: "nat \<Rightarrow> (nat \<Rightarrow> nat) \<Rightarrow> nat list \<Rightarrow> bool" where
  "is_route num_coords next_var visited =
     (visited \<noteq> [] \<and> hd visited = Start
      \<and> (\<forall>k. Suc k < length visited \<longrightarrow> next_var (visited ! k) = visited ! Suc k)
      \<and> next_var (last visited) = End num_coords
      \<and> distinct visited \<and> set visited = {0..<num_coords})"

definition ortools_contract :: "(pixel list \<Rightarrow> solver_outcome) \<Rightarrow> bool" where
  "ortools_contract ortools =
     (\<forall>coords next_var. coords \<noteq> [] \<and> ortools coords = Solution next_var \<longrightarrow>
        (\<exists>visited. is_route (length coords) next_var visited))"

subsection \<open>Processing the shapes and saving the path\<close>

text \<open>
  \<open>np.column_stack(np.where(self.labels == label_id))\<close>: the pixels carrying the label,
  row by row.
\<close>

definition shape_coords :: "nat list list \<Rightarrow> nat \<Rightarrow> pixel list" where
  "shape_coords labels label_id =
     concat (map (\<lambda>row. map (\<lambda>col. (row, col))
                          (filter (\<lambda>col. labels ! row ! col = label_id)
                                  [0..<length (labels ! row)]))
                 [0..<length labels])"

text \<open>
  The loop of \<open>process_shapes\<close> over the labels, with \<open>self.all_paths_pixels\<close> as
  accumulator. \<open>if optimized_path_pixels:\<close> is false for \<open>None\<close> and for the empty list.
\<close>

fun process_labels ::
  "(pixel list \<Rightarrow> solver_outcome) \<Rightarrow> nat list list \<Rightarrow> nat list \<Rightarrow> pixel list \<Rightarrow> pixel list option" where
  "process_labels ortools labels [] all_paths_pixels = Some all_paths_pixels"
| "process_labels ortools labels (label_id # ids) all_paths_pixels =
     (let shape_coords_pixels = shape_coords labels label_id in
      if length shape_coords_pixels = 0 then process_labels ortools labels ids all_paths_pixels
      else (case solve_tsp_for_coords ortools shape_coords_pixels of
              None \<Rightarrow> None
            | Some optimized_path_pixels \<Rightarrow>
                (case optimized_path_pixels of
                   None \<Rightarrow> process_labels ortools labels ids all_paths_pixels
                 | Some path \<Rightarrow>
                     if path = [] then process_labels ortools labels ids all_paths_pixels
                     else process_labels ortools labels ids (all_paths_pixels @ path))))"

definition process_shapes ::
  "(pixel list \<Rightarrow> solver_outcome) \<Rightarrow> nat list list option \<Rightarrow> nat \<Rightarrow> pixel list option" where
  "process_shapes ortools labels num_labels =
     (case labels of
        None \<Rightarrow> Some []
      | Some l \<Rightarrow> if num_labels \<le> 1 then Some []
                  else process_labels ortools l [1..<num_labels] [])"

text \<open>
  Writing the coordinate file: opening it may raise, the write of some line may raise,
  or all goes well.
\<close>

datatype file_io = Open_raises exn | Write_raises nat exn | Writes_ok

definition stream_written :: "file_io \<Rightarrow> nat \<Rightarrow> bool" where
  "stream_written io n =
     (case io of Open_raises e \<Rightarrow> False | Write_raises k e \<Rightarrow> n \<le> k | Writes_ok \<Rightarrow> True)"

text \<open>
  \<open>save_optimized_path\<close>, returning the result and what the file holds afterwards
  (\<open>None\<close>: not opened). A line is the pair \<open>(scaled_x, scaled_y)\<close>; its rendering
  with three decimals is left out.
\<close>

definition scaled_line :: "real \<Rightarrow> pixel \<Rightarrow> real \<times> real" where
  "scaled_line step_size point = (real (snd point) * step_size, real (fst point) * step_size)"

definition save_optimized_path ::
  "pixel list \<Rightarrow> real \<Rightarrow> file_io \<Rightarrow> bool \<times> (real \<times> real) list option" where
  "save_optimized_path all_paths_pixels step_size io =
     (if all_paths_pixels = [] then (False, None)
      else (case io of
              Open_raises e \<Rightarrow> (False, None)
            | Write_raises k e \<Rightarrow>
                if k < length all_paths_pixels
                then (False, Some (map (scaled_line step_size) (take k all_paths_pixels)))
                else (True, Some (map (scaled_line step_size) all_paths_pixels))
            | Writes_ok \<Rightarrow> (True, Some (map (scaled_line step_size) all_paths_pixels))))"

section \<open>gui.py: the progress event of a step\<close>

text \<open>
  The percentage is an integer cut out of a floating-point product, so here the rounding
  of the two float operations matters: \<open>fl\<close> rounds a real to the nearest
  double-precision number, a tie to the even significand (53 bits). The exponent is
  found by stepping from 0, which covers the normal range; overflow and subnormal
  numbers do not occur for the quotients and products below.
\<close>

fun binade :: "nat \<Rightarrow> int \<Rightarrow> real \<Rightarrow> int" where
  "binade 0 e x = e"
| "binade (Suc fuel) e x =
     (if x < 2 powi e then binade fuel (e - 1) x
      else if 2 powi (e + 1) \<le> x then binade fuel (e + 1) x
      else e)"

definition fl :: "real \<Rightarrow> real" where
  "fl x =
     (if x = 0 then 0
      else let e = binade 1100 0 \<bar>x\<bar>; ulp = 2 powi (e - 52)
           in sgn x * of_int (round_half_even (\<bar>x\<bar> / ulp)) * ulp)"

text \<open>Python's \<open>int\<close> of a float: towards zero.\<close>

definition py_int :: "real \<Rightarrow> int" where
  "py_int x = (if 0 \<le> x then \<lfloor>x\<rfloor> else \<lceil>x\<rceil>)"

text \<open>\<open>percentage = int((i / total_steps) * 100)\<close>.\<close>

definition percentage_of :: "nat \<Rightarrow> nat \<Rightarrow> int" where
  "percentage_of i n = py_int (fl (fl (real i / real n) * 100))"

text \<open>
  The status line \<open>f"Running Step {i}/{total_steps} (X={x_pos:.2f}, Y={y_pos:.2f})"\<close>
  is kept as the four values it renders; the remaining time is kept as the three numbers
  of \<open>f"{rh:02d}:{rm:02d}:{rs:02d}"\<close>.
\<close>

datatype status_message = Running_Step nat nat real real

record progress_event =
  percentage :: int
  status :: status_message
  remaining :: "int \<times> int \<times> int"

text \<open>
  Lines 131 to 139 of the worker's loop for step \<open>i\<close> at row \<open>row\<close>, with the clock
  reading \<open>elapsed_time\<close>. The times come from the clock and are modelled with exact
  arithmetic.
\<close>

definition step_progress :: "nat \<Rightarrow> nat \<Rightarrow> real list \<Rightarrow> real \<Rightarrow> real \<Rightarrow> progress_event" where
  "step_progress i n row elapsed_time estimated_total_seconds =
     (let x_pos = row ! 0; y_pos = row ! 1;
          remaining_steps = real n - real i;
          avg_step_time = (if i > 0 then elapsed_time / real i
                           else estimated_total_seconds / real (max 1 n));
          estimated_remaining_sec = remaining_steps * avg_step_time
      in \<lparr>percentage = percentage_of i n,
          status = Running_Step i n x_pos y_pos,
          remaining = seconds_to_hms estimated_remaining_sec\<rparr>)"

section \<open>Concrete inputs\<close>

text \<open>Stage devices that never raise, and ones where the Y stage cannot be opened and the X stage cannot be closed.\<close>

definition calm_stages :: stage_io where
  "calm_stages = \<lparr>x_open_raises = False, y_open_raises = False,
                   x_close_raises = False, y_close_raises = False\<rparr>"

definition stuck_stages :: stage_io where
  "stuck_stages = \<lparr>x_open_raises = False, y_open_raises = True,
                    x_close_raises = True, y_close_raises = False\<rparr>"

definition open_uv :: uv_controller where
  "open_uv = \<lparr>serial = Some \<lparr>is_open = True\<rparr>, uv_connected_flag = True\<rparr>"

text \<open>The runner as the GUI builds it: serial numbers and overheads of \<open>config.py\<close>, default cure time.\<close>

definition lab_runner :: experiment_runner where
  "lab_runner = \<lparr>motion_system = MotionSystem_init ''27269534'' ''27269887'',
                  uv_controller = UVcontroller_init, cure_time_s = 3,
                  coordinates = None, total_steps = 0,
                  uv_command_overhead_s = 1.0, move_process_overhead_s = 0.5\<rparr>"

definition no_overheads :: config where
  "no_overheads = \<lparr>UV_COMMAND_OVERHEAD_S = 0, MOVE_PROCESS_OVERHEAD_S = 0\<rparr>"

definition two_rows :: coord_file where
  "two_rows = TextFile [[Some 150, Some 100], [Some 200, Some 100]]"

definition three_rows :: coord_file where
  "three_rows = TextFile [[Some 150, Some 100], [Some 200, Some 100], [Some 200, Some 150]]"

definition one_column :: coord_file where
  "one_column = TextFile [[Some 1], [Some 2]]"

text \<open>A world whose devices all work, with a given file, interrupt and move results.\<close>

definition lab_world :: "coord_file \<Rightarrow> interrupt_point option \<Rightarrow> (nat \<Rightarrow> bool) \<Rightarrow> world" where
  "lab_world f intr moves =
     \<lparr>input_file = f, stages = calm_stages, uv_port_error = None, device_move_ok = moves,
      uv_on_reply = Some [0xA5], uv_off_reply = Some [0xA5], interrupt = intr\<rparr>"

text \<open>A solver stand-in that visits the points in their given order, and one that finds nothing.\<close>

definition in_order_solver :: "pixel list \<Rightarrow> solver_outcome" where
  "in_order_solver coords = Solution Suc"

definition failing_solver :: "pixel list \<Rightarrow> solver_outcome" where
  "failing_solver coords = No_solution"

text \<open>A solver stand-in that finds nothing for a shape holding the pixel \<open>(0, 0)\<close>.\<close>

definition picky_solver :: "pixel list \<Rightarrow> solver_outcome" where
  "picky_solver coords = (if (0, 0) \<in> set coords then No_solution else Solution Suc)"

text \<open>A label image with three shapes of two pixels each.\<close>

definition three_shapes :: "nat list list" where
  "three_shapes = [[1, 1, 0, 2, 2],
                   [0, 0, 0, 0, 0],
                   [3, 3, 0, 0, 0]]"

text \<open>Three pixels at the corners of a triangle with sides 3, 4 and 5.\<close>

definition triangle :: "pixel list" where
  "triangle = [(0, 0), (0, 3), (4, 3)]"

text \<open>The specification's percentage, in its words: \<open>100 * i / n\<close> rounded to the nearest integer.\<close>

definition spec_percentage :: "nat \<Rightarrow> nat \<Rightarrow> int" where
  "spec_percentage i n = round (100 * real i / real n)"

section \<open>The UV controller's commands\<close>

text \<open>
  Claim C9. \<open>uv_on\<close> and \<open>uv_off\<close> return True exactly when \<open>send_command\<close>
  returned a non-empty response, whatever the response holds; when the controller is
  not connected, \<open>send_command\<close> returns empty bytes without raising (whatever the
  device would have done), and both commands return False.
\<close>

theorem uv_commands_true_iff_response:
  "(send_command uv uv_on_cmd io = Inr response \<longrightarrow> uv_on uv io = Inr (response \<noteq> []))
   \<and> (send_command uv uv_off_cmd io = Inr response \<longrightarrow> uv_off uv io = Inr (response \<noteq> []))
   \<and> (\<not> uv_is_connected uv \<longrightarrow>
        send_command uv command io = Inr [] \<and> uv_on uv io = Inr False \<and> uv_off uv io = Inr False)"
  by (auto simp: uv_on_def uv_off_def send_command_def)

theorem uv_commands_witness:
  "uv_on open_uv (Response [0x00]) = Inr True
   \<and> uv_off open_uv (Response [0x00]) = Inr True
   \<and> uv_on open_uv (Raises SerialException) = Inr False
   \<and> send_command UVcontroller_init uv_off_cmd (Response [0xA5]) = Inr []
   \<and> uv_on UVcontroller_init (Response [0xA5]) = Inr False
   \<and> uv_off UVcontroller_init (Response [0xA5]) = Inr False"
proof -
  have c: "uv_is_connected open_uv" "\<not> uv_is_connected UVcontroller_init"
    by (simp_all add: uv_is_connected_def open_uv_def UVcontroller_init_def)
  have s: "send_command open_uv cmd (Response [0x00]) = Inr [0x00]"
          "send_command open_uv cmd (Raises SerialException) = Inr []" for cmd
    using c by (simp_all add: send_command_def serial_exchange_def)
  show ?thesis
    using uv_commands_true_iff_response[of open_uv "Response [0x00]" "[0x00]"]
      uv_commands_true_iff_response[of open_uv "Raises SerialException" "[]"]
      uv_commands_true_iff_response[of UVcontroller_init "Response [0xA5]" "[]" uv_off_cmd]
      c s
    by simp
qed

section \<open>The motion system's connection state\<close>

text \<open>
  What holds of \<open>connect\<close> and \<open>disconnect\<close>: a \<open>connect\<close> that returns False
  leaves both handles empty and the flag cleared, and \<open>disconnect\<close> clears all three
  whenever the flag was set, also when closing raised.
\<close>

lemma ms_connect_false_cleared:
  "fst (ms_connect ms io) = Returned False \<Longrightarrow>
     stage_x (snd (ms_connect ms io)) = None \<and> stage_y (snd (ms_connect ms io)) = None
     \<and> \<not> ms_connected_flag (snd (ms_connect ms io))"
  by (auto simp: ms_connect_def connect_handler_def Let_def split: if_splits)

lemma ms_disconnect_cleared:
  "ms_connected_flag ms \<or> (stage_x ms = None \<and> stage_y ms = None) \<Longrightarrow>
     \<not> ms_is_connected (ms_disconnect ms io) \<and> stage_x (ms_disconnect ms io) = None
     \<and> stage_y (ms_disconnect ms io) = None"
  by (auto simp: ms_disconnect_def ms_is_connected_def split: option.splits)

text \<open>
  Claim C10. The claim fails after a \<open>connect\<close> in which the X stage opened, the
  Y stage did not, and closing the X stage raised inside the \<open>except\<close> clause: the
  exception leaves \<open>connect\<close> with the X handle still set and the flag unset, and a
  following \<open>disconnect\<close> returns at its first test, leaving the X handle in place.
\<close>

theorem ms_disconnect_keeps_stale_handle:
  "fst (ms_connect (MotionSystem_init ''27269534'' ''27269887'') stuck_stages)
     = Raised OtherException
   \<and> stage_x (ms_disconnect
        (snd (ms_connect (MotionSystem_init ''27269534'' ''27269887'') stuck_stages))
        calm_stages) = Some (KinesisMotor ''27269534'')"
  by (simp add: ms_connect_def connect_handler_def MotionSystem_init_def stuck_stages_def
      ms_disconnect_def Let_def)

theorem ms_disconnect_stale_handle_witness:
  "stage_x (ms_disconnect
      (snd (ms_connect (MotionSystem_init ''27269534'' ''27269887'') stuck_stages))
      calm_stages) \<noteq> None"
  using ms_disconnect_keeps_stale_handle by simp

section \<open>Loading the coordinates and estimating the duration\<close>

text \<open>
  What holds of \<open>load_coordinates\<close>: a table of \<open>n \<ge> 1\<close> lines of \<open>c \<ge> 2\<close> numbers each
  is loaded with \<open>total_steps = n\<close> (a single line too), and a missing file, an empty
  file and a file holding one number are refused.
\<close>

lemma load_coordinates_table:
  assumes "rows \<noteq> []" and "\<forall>row \<in> set rows. length row = c" and "2 \<le> c"
  shows "load_coordinates r (TextFile (map (map Some) rows))
           = (True, r\<lparr>coordinates := Some (Arr2 rows), total_steps := length rows\<rparr>)"
proof -
  obtain row rest where rows: "rows = row # rest" using assms(1) by (cases rows) auto
  have m: "map (map the) (map (map Some) rows) = rows"
    by (simp add: comp_def)
  have nonone: "\<not> (\<exists>l \<in> set (map (map Some) rows). \<exists>f \<in> set l. f = None)" by auto
  show ?thesis
  proof (cases rest)
    case Nil
    with rows assms show ?thesis
      using nonone unfolding load_coordinates_def loadtxt_def m
      by (auto simp: Let_def)
  next
    case (Cons a list)
    with rows assms show ?thesis
      using nonone unfolding load_coordinates_def loadtxt_def m
      by (auto simp: Let_def)
  qed
qed

lemma load_coordinates_refused:
  "fst (load_coordinates r NoSuchFile) = False"
  "fst (load_coordinates r (TextFile [])) = False"
  "fst (load_coordinates r (TextFile [[v]])) = False"
  by (auto simp: load_coordinates_def loadtxt_def split: option.splits)

text \<open>
  Claim C8. The claim fails on a file of one column and two lines, \<open>1\<close> and \<open>2\<close>:
  the loader squeezes the column to the vector \<open>[1, 2]\<close>, which the reshape for a
  single line turns into one row \<open>(1, 2)\<close>, and the file is accepted with
  \<open>total_steps = 1\<close>, although it has fewer than two columns.
\<close>

theorem load_coordinates_accepts_one_column:
  "load_coordinates lab_runner one_column
     = (True, lab_runner\<lparr>coordinates := Some (Arr2 [[1, 2]]), total_steps := 1\<rparr>)"
  by (simp add: load_coordinates_def loadtxt_def one_column_def)

theorem load_coordinates_one_column_witness:
  "fst (load_coordinates lab_runner one_column)
   \<and> total_steps (snd (load_coordinates lab_runner one_column)) = 1
   \<and> rows_of (coordinates (snd (load_coordinates lab_runner one_column))) = [[1, 2]]"
  using load_coordinates_accepts_one_column by simp

text \<open>
  Claim C7. For a runner built from a configuration and a cure time \<open>c\<close>, once the
  coordinates are loaded (so that \<open>total_steps = n > 0\<close>), the estimate is
  \<open>n * (c + move_overhead) + 2 * uv_command_overhead\<close> with the two overheads of the
  configuration; the witness is the case of three rows, \<open>c = 2\<close> and no overheads,
  which gives 6 seconds.
\<close>

theorem estimate_duration_formula:
  assumes "ExperimentRunner_init cfg ms uv c = Inr r0"
      and "load_coordinates r0 f = (True, r)"
  shows "0 < total_steps r
         \<and> estimate_duration r =
             real (total_steps r) * (c + MOVE_PROCESS_OVERHEAD_S cfg)
             + 2 * UV_COMMAND_OVERHEAD_S cfg"
  using assms
  by (auto simp: ExperimentRunner_init_def load_coordinates_def estimate_duration_def Let_def
      split: if_splits coord_file.splits sum.splits)

theorem estimate_duration_witness:
  "estimate_duration
     (snd (load_coordinates
        \<lparr>motion_system = MotionSystem_init ''27269534'' ''27269887'',
         uv_controller = UVcontroller_init, cure_time_s = 2, coordinates = None,
         total_steps = 0, uv_command_overhead_s = 0, move_process_overhead_s = 0\<rparr>
        three_rows)) = 6"
proof -
  let ?r0 = "\<lparr>motion_system = MotionSystem_init ''27269534'' ''27269887'',
         uv_controller = UVcontroller_init, cure_time_s = 2, coordinates = None,
         total_steps = 0, uv_command_overhead_s = 0, move_process_overhead_s = 0\<rparr>"
  have i: "ExperimentRunner_init no_overheads (MotionSystem_init ''27269534'' ''27269887'')
             UVcontroller_init 2 = Inr ?r0"
    by (simp add: ExperimentRunner_init_def no_overheads_def)
  have l: "load_coordinates ?r0 three_rows
             = (True, ?r0\<lparr>coordinates := Some (Arr2 [[150, 100], [200, 100], [200, 150]]),
                        total_steps := 3\<rparr>)"
    by (simp add: load_coordinates_def loadtxt_def three_rows_def)
  from estimate_duration_formula[OF i l] show ?thesis
    by (simp add: l no_overheads_def)
qed

section \<open>The per-shape solver\<close>

text \<open>The route loop follows a route of the library to its end and collects its indices.\<close>

lemma route_loop_suffix:
  assumes r: "is_route n nxt visited"
  shows "k < length visited \<Longrightarrow>
         route_loop n nxt (visited ! k) acc = Some (acc @ drop k visited)"
proof (induction "length visited - k" arbitrary: k acc)
  case 0
  then show ?case by simp
next
  case (Suc d)
  from r have inset: "visited ! k < n"
    using Suc.prems by (metis atLeastLessThan_iff is_route_def nth_mem)
  then have notend: "\<not> IsEnd n (visited ! k)" and node: "IndexToNode n (visited ! k) = visited ! k"
    by (simp_all add: IsEnd_def End_def IndexToNode_def)
  show ?case
  proof (cases "Suc k < length visited")
    case True
    with r have nx: "nxt (visited ! k) = visited ! Suc k" by (simp add: is_route_def)
    have "route_loop n nxt (visited ! Suc k) (acc @ [visited ! k])
            = Some ((acc @ [visited ! k]) @ drop (Suc k) visited)"
      using Suc.hyps True by (intro Suc.hyps(1)) auto
    then show ?thesis
      using notend node nx Suc.prems
      by (subst route_loop.simps) (simp add: Cons_nth_drop_Suc)
  next
    case False
    with Suc.prems have k: "k = length visited - 1" by simp
    with r Suc.prems have "visited ! k = last visited"
      by (simp add: last_conv_nth is_route_def)
    with r have nx: "nxt (visited ! k) = End n" by (simp add: is_route_def)
    have dr: "drop k visited = [visited ! k]"
      using k Suc.prems by (metis False Cons_nth_drop_Suc drop_all not_less)
    have "route_loop n nxt (End n) (acc @ [visited ! k]) = Some (acc @ [visited ! k])"
      by (subst route_loop.simps) (simp add: IsEnd_def)
    then show ?thesis
      using notend node nx dr by (subst route_loop.simps) simp
  qed
qed

lemma route_loop_is_route:
  assumes "is_route n nxt visited"
  shows "route_loop n nxt Start [] = Some visited"
proof -
  from assms have "visited \<noteq> []" "hd visited = Start" by (simp_all add: is_route_def)
  then have "visited ! 0 = Start" "0 < length visited" by (simp_all add: hd_conv_nth)
  with route_loop_suffix[OF assms, of 0 "[]"] show ?thesis by simp
qed

lemma permuted_coords:
  assumes "distinct visited" "set visited = {0..<length coords}"
  shows "mset (map (\<lambda>i. coords ! i) visited) = mset coords"
proof -
  have "mset visited = mset [0..<length coords]"
    using assms mset_set_set[of visited] by simp
  then have "mset (map (\<lambda>i. coords ! i) visited) = mset (map (\<lambda>i. coords ! i) [0..<length coords])"
    by (metis mset_map)
  then show ?thesis by (simp add: map_nth)
qed

text \<open>The stand-in solver keeps the library's promise: its route is \<open>0, 1, ..., n - 1\<close>.\<close>

lemma in_order_is_route: "0 < n \<Longrightarrow> is_route n Suc [0..<n]"
  by (auto simp: is_route_def Start_def End_def hd_upt last_upt nth_upt)

lemma in_order_solver_contract: "ortools_contract in_order_solver"
  using in_order_is_route by (auto simp: ortools_contract_def in_order_solver_def)

lemma failing_solver_contract: "ortools_contract failing_solver"
  by (simp add: ortools_contract_def failing_solver_def)

lemma solve_in_order:
  assumes "2 \<le> length coords"
  shows "solve_tsp_for_coords in_order_solver coords = Some (Some coords)"
proof -
  have "route_loop (length coords) Suc Start [] = Some [0..<length coords]"
    using assms by (intro route_loop_is_route in_order_is_route) auto
  then show ?thesis
    using assms
    by (simp add: solve_tsp_for_coords_def in_order_solver_def list_all_iff map_nth Let_def)
qed

text \<open>
  Claim C2. Provided the routing library keeps its promise (a solution is a route
  through every node exactly once), the solver returns for every point list: either no
  solution (\<open>None\<close>), or an order of as many points as the input that is a permutation
  of it; a list of at most one point is returned as it is, the library not being
  called.
\<close>

theorem solve_returns_permutation_or_none:
  assumes "ortools_contract ortools"
  shows "\<exists>result. solve_tsp_for_coords ortools coords = Some result
           \<and> (case result of
                 None \<Rightarrow> True
               | Some ordered \<Rightarrow> length ordered = length coords \<and> mset ordered = mset coords)
           \<and> (length coords \<le> 1 \<longrightarrow>
                 result = Some coords
                 \<and> solve_tsp_for_coords anything coords = Some (Some coords))"
proof (cases "length coords \<le> 1")
  case True
  then show ?thesis by (simp add: solve_tsp_for_coords_def)
next
  case False
  show ?thesis
  proof (cases "ortools coords")
    case (Solution nxt)
    with assms False obtain visited where r: "is_route (length coords) nxt visited"
      unfolding ortools_contract_def by (metis le0 list.size(3))
    then have loop: "route_loop (length coords) nxt Start [] = Some visited"
      by (rule route_loop_is_route)
    from r have d: "distinct visited" and s: "set visited = {0..<length coords}"
      by (simp_all add: is_route_def)
    then have all: "list_all (\<lambda>i. i < length coords) visited"
      by (simp add: list_all_iff)
    have len: "length visited = length coords"
      using d s by (metis card_atLeastLessThan distinct_card minus_nat.diff_0)
    show ?thesis
      using False Solution loop all len permuted_coords[OF d s]
      by (simp add: solve_tsp_for_coords_def)
  qed (use False in \<open>simp_all add: solve_tsp_for_coords_def\<close>)
qed

theorem solve_witness:
  "solve_tsp_for_coords in_order_solver [(0, 0), (0, 1), (1, 1)] = Some (Some [(0, 0), (0, 1), (1, 1)])
   \<and> solve_tsp_for_coords in_order_solver [(2, 3)] = Some (Some [(2, 3)])
   \<and> solve_tsp_for_coords failing_solver [(0, 0), (0, 1), (1, 1)] = Some None"
proof -
  have a: "solve_tsp_for_coords in_order_solver [(0, 0), (0, 1), (1, 1)]
             = Some (Some [(0, 0), (0, 1), (1, 1)])"
    by (rule solve_in_order) simp
  from solve_returns_permutation_or_none[OF in_order_solver_contract, of "[(2, 3)]" in_order_solver]
  have b: "solve_tsp_for_coords in_order_solver [(2, 3)] = Some (Some [(2, 3)])"
    by simp
  have c: "solve_tsp_for_coords failing_solver [(0, 0), (0, 1), (1, 1)] = Some None"
    by (simp add: solve_tsp_for_coords_def failing_solver_def)
  from a b c show ?thesis by simp
qed

section \<open>Processing the shapes\<close>

lemma process_labels_concat:
  assumes "\<forall>l \<in> set ids. solve_tsp_for_coords ortools (shape_coords labels l) = Some (solved l)"
  shows "process_labels ortools labels ids acc =
           Some (acc @ concat (map (\<lambda>l. case solved l of None \<Rightarrow> [] | Some path \<Rightarrow> path) ids))"
  using assms
proof (induction ids arbitrary: acc)
  case Nil
  then show ?case by simp
next
  case (Cons l ids)
  then have s: "solve_tsp_for_coords ortools (shape_coords labels l) = Some (solved l)"
    and rest: "\<forall>l \<in> set ids. solve_tsp_for_coords ortools (shape_coords labels l) = Some (solved l)"
    by simp_all
  show ?case
  proof (cases "shape_coords labels l = []")
    case True
    with s have "solved l = Some []" by (simp add: solve_tsp_for_coords_def)
    with True Cons.IH[OF rest] show ?thesis by simp
  next
    case False
    with s Cons.IH[OF rest] show ?thesis
      by (cases "solved l") (simp_all add: Let_def)
  qed
qed

lemma solve_picky:
  "solve_tsp_for_coords picky_solver coords
     = Some (if 2 \<le> length coords \<and> (0, 0) \<in> set coords then None else Some coords)"
proof (cases "2 \<le> length coords")
  case True
  then have "route_loop (length coords) Suc Start [] = Some [0..<length coords]"
    by (intro route_loop_is_route in_order_is_route) auto
  with True show ?thesis
    by (simp add: solve_tsp_for_coords_def picky_solver_def list_all_iff map_nth Let_def)
next
  case False
  then show ?thesis by (simp add: solve_tsp_for_coords_def)
qed

lemma shapes_eval:
  "shape_coords three_shapes 1 = [(0, 0), (0, 1)]"
  "shape_coords three_shapes 2 = [(0, 3), (0, 4)]"
  "shape_coords three_shapes 3 = [(2, 0), (2, 1)]"
  by (simp_all add: shape_coords_def three_shapes_def upt_rec[of 0] upt_rec[of 1] upt_rec[of 2] upt_rec[of 3] upt_rec[of 4])

text \<open>
  Claim C3. Let the segmentation have the labels \<open>1..m\<close> and let the solver return
  for every shape, \<open>solved l\<close> being its result for the shape of label \<open>l\<close>. If the
  result for shape \<open>j\<close> is no solution, \<open>process_shapes\<close> returns (it does not raise),
  and the path is the concatenation, in ascending label order, of the solved orders
  of all the other shapes.
\<close>

theorem process_shapes_skips_unsolved:
  assumes "\<forall>l \<in> {1..m}. solve_tsp_for_coords ortools (shape_coords labels l) = Some (solved l)"
      and "1 \<le> j" and "j \<le> m" and "solved j = None"
  shows "process_shapes ortools (Some labels) (Suc m) =
           Some (concat (map (\<lambda>l. case solved l of None \<Rightarrow> [] | Some path \<Rightarrow> path)
                             ([1..<j] @ [Suc j..<Suc m])))"
proof -
  have "[1..<Suc m] = [1..<j] @ [j..<Suc m]"
    using assms(2,3) upt_add_eq_append[of 1 j "Suc m - j"] by simp
  moreover have "[j..<Suc m] = j # [Suc j..<Suc m]"
    using assms(3) by (simp add: upt_conv_Cons)
  ultimately have split: "[1..<Suc m] = [1..<j] @ j # [Suc j..<Suc m]"
    by simp
  have "process_shapes ortools (Some labels) (Suc m) = process_labels ortools labels [1..<Suc m] []"
    using assms(2,3) by (simp add: process_shapes_def del: upt_Suc)
  also have "\<dots> = Some ([] @ concat (map (\<lambda>l. case solved l of None \<Rightarrow> [] | Some path \<Rightarrow> path) [1..<Suc m]))"
    by (rule process_labels_concat) (use assms(1) in auto)
  finally show ?thesis
    unfolding split using assms(4) by simp
qed

theorem process_shapes_witness:
  "solve_tsp_for_coords picky_solver (shape_coords three_shapes 1) = Some None
   \<and> process_shapes picky_solver (Some three_shapes) 4 = Some [(0, 3), (0, 4), (2, 0), (2, 1)]"
proof -
  let ?solved = "\<lambda>l. if 2 \<le> length (shape_coords three_shapes l) \<and> (0, 0) \<in> set (shape_coords three_shapes l)
                      then None else Some (shape_coords three_shapes l)"
  have all: "\<forall>l \<in> {1..3}. solve_tsp_for_coords picky_solver (shape_coords three_shapes l) = Some (?solved l)"
    by (simp add: solve_picky)
  have j: "?solved 1 = None" using shapes_eval(1) by simp
  have u: "[1..<1] @ [Suc 1..<Suc 3] = [2, 3::nat]" by (simp add: upt_rec)
  have s2: "?solved 2 = Some [(0, 3), (0, 4)]" and s3: "?solved 3 = Some [(2, 0), (2, 1)]"
    unfolding shapes_eval by simp_all
  from process_shapes_skips_unsolved[where ortools = picky_solver and labels = three_shapes
      and solved = ?solved and j = 1 and m = 3, OF all _ _ j]
  have "process_shapes picky_solver (Some three_shapes) (Suc 3)
          = Some (concat (map (\<lambda>l. case ?solved l of None \<Rightarrow> [] | Some path \<Rightarrow> path) [2, 3]))"
    unfolding u by simp
  then have b: "process_shapes picky_solver (Some three_shapes) 4
                  = Some [(0, 3), (0, 4), (2, 0), (2, 1)]"
    unfolding list.map concat.simps s2 s3 by simp
  have a: "solve_tsp_for_coords picky_solver (shape_coords three_shapes 1) = Some None"
    unfolding shapes_eval by (simp add: solve_picky)
  from a b show ?thesis by simp
qed

section \<open>Saving the path\<close>

text \<open>
  Claim C4, as amended. \<open>save_optimized_path\<close> returns False for an empty path
  without opening the file; for a path that is not empty it returns True exactly when
  the file could be opened and every line written.
\<close>

theorem save_reports_writing_of_nonempty_path:
  "fst (save_optimized_path all_paths_pixels step_size io)
     = (all_paths_pixels \<noteq> [] \<and> stream_written io (length all_paths_pixels))
   \<and> save_optimized_path [] step_size io = (False, None)"
  by (auto simp: save_optimized_path_def stream_written_def split: file_io.splits)

text \<open>
  Claim C4 as stated fails on the empty path: the stream could have been written
  (nothing would raise), and the result is False all the same.
\<close>

theorem save_empty_path_counterexample:
  "stream_written Writes_ok (length ([] :: pixel list))
   \<and> fst (save_optimized_path [] 50 Writes_ok) = False"
  by (simp add: save_optimized_path_def stream_written_def)

theorem save_witness:
  "save_optimized_path [(2, 3)] 50 Writes_ok = (True, Some [(150, 100)])
   \<and> fst (save_optimized_path [(2, 3)] 50 (Write_raises 0 IOError)) = False
   \<and> fst (save_optimized_path [] 50 Writes_ok) = False"
  using save_reports_writing_of_nonempty_path[of "[(2, 3)]" 50 "Write_raises 0 IOError"]
    save_reports_writing_of_nonempty_path[of "[]" 50 Writes_ok]
  by (simp add: save_optimized_path_def stream_written_def scaled_line_def)

section \<open>The cleanup of a run\<close>

lemma step_loop_no_cleanup: "Cleanup \<notin> set (snd (step_loop w r i rows))"
proof (induction rows arbitrary: i)
  case Nil
  show ?case by simp
next
  case (Cons row rows)
  from Cons[of "Suc i"] show ?case
    by (cases "step_loop w r (Suc i) rows") auto
qed

lemma run_connected_no_cleanup: "Cleanup \<notin> set (snd (run_connected w b r))"
  using step_loop_no_cleanup[of w r 1 "rows_of (coordinates r)"]
  by (auto simp: run_connected_def Let_def split: sum.splits prod.splits bool.splits)

lemma connect_hardware_no_cleanup: "Cleanup \<notin> set (snd (snd (connect_hardware r w)))"
  by (auto simp: connect_hardware_def split: prod.splits outcome.splits)

lemma run_body_no_cleanup: "Cleanup \<notin> set (snd (snd (run_body r w b)))"
proof -
  obtain loaded r1 where l: "load_coordinates r (input_file w) = (loaded, r1)"
    by (cases "load_coordinates r (input_file w)") auto
  obtain res r2 evs where c: "connect_hardware r1 w = (res, r2, evs)"
    by (cases "connect_hardware r1 w") auto
  obtain ex evs2 where rc: "run_connected w b r2 = (ex, evs2)"
    by (cases "run_connected w b r2") auto
  have "Cleanup \<notin> set evs" "Cleanup \<notin> set evs2"
    using connect_hardware_no_cleanup[of r1 w] run_connected_no_cleanup[of w b r2] c rc
    by simp_all
  then show ?thesis
    using l c rc by (cases res) (auto simp: run_body_def split: bool.splits)
qed

lemma connect_hardware_true:
  "connect_hardware r w = (Returned True, r2, evs) \<Longrightarrow> uv_is_connected (uv_controller r2)"
  by (auto simp: connect_hardware_def split: prod.splits outcome.splits if_splits)

lemma connect_hardware_no_on: "Uv_on \<notin> set (snd (snd (connect_hardware r w)))"
  by (auto simp: connect_hardware_def split: prod.splits outcome.splits)

lemma run_body_on_connected:
  assumes "Uv_on \<in> set (snd (snd (run_body r w b)))"
  shows "uv_is_connected (uv_controller (fst (snd (run_body r w b))))"
proof -
  obtain loaded r1 where l: "load_coordinates r (input_file w) = (loaded, r1)"
    by (cases "load_coordinates r (input_file w)") auto
  obtain res r2 evs where c: "connect_hardware r1 w = (res, r2, evs)"
    by (cases "connect_hardware r1 w") auto
  obtain ex evs2 where rc: "run_connected w b r2 = (ex, evs2)"
    by (cases "run_connected w b r2") auto
  have "Uv_on \<notin> set evs"
    using connect_hardware_no_on[of r1 w] c by simp
  then show ?thesis
    using assms l c rc connect_hardware_true[of r1 w r2 evs]
    by (cases res) (auto simp: run_body_def split: bool.splits if_splits)
qed

lemma disconnected_after:
  "\<not> uv_is_connected (uv_disconnect uv)" "\<not> ms_is_connected (ms_disconnect ms io)"
  by (auto simp: uv_is_connected_def uv_disconnect_def ms_is_connected_def ms_disconnect_def
      split: option.splits)

text \<open>
  Claim C1, as amended. Whatever the file, the devices and the interrupt do, the trace of
  a run is the events of the \<open>try\<close> block, none of which is the cleanup mark, then the
  cleanup mark once, then the off command if and only if the UV controller reports
  itself connected at that moment, then the disconnection of the UV controller, then
  that of the motion system; this holds for each of the three outcomes, and afterwards
  neither controller reports itself connected. The UV controller is connected at
  that moment, and so the off command is sent, whenever the run had sent the on
  command.
\<close>

theorem run_cleanup_exactly_once:
  "trace (run r w b) =
     snd (snd (run_body r w b)) @ [Cleanup]
       @ (if uv_is_connected (uv_controller (fst (snd (run_body r w b)))) then [Uv_off] else [])
       @ [Uv_disconnect, Motion_disconnect]
   \<and> count_list (trace (run r w b)) Cleanup = 1
   \<and> (Uv_on \<in> set (snd (snd (run_body r w b))) \<longrightarrow>
        uv_is_connected (uv_controller (fst (snd (run_body r w b)))))
   \<and> outcome (run r w b) = terminal_of (fst (run_body r w b))
   \<and> \<not> uv_is_connected (uv_controller (final (run r w b)))
   \<and> \<not> ms_is_connected (motion_system (final (run r w b)))"
proof -
  obtain ex r1 evs where body: "run_body r w b = (ex, r1, evs)"
    by (cases "run_body r w b") auto
  with run_body_no_cleanup[of r w b] have "count_list evs Cleanup = 0"
    by (simp add: count_list_0_iff)
  with body run_body_on_connected[of r w b] show ?thesis
    by (simp add: run_def disconnect_hardware_def Let_def disconnected_after)
qed

lemmas run_eval_defs =
  run_body_def load_coordinates_def loadtxt_def connect_hardware_def ms_connect_def
  connect_handler_def uv_connect_def run_connected_def move_to_um_def ms_is_connected_def
  uv_is_connected_def uv_on_def send_command_def serial_exchange_def reply_io_def
  lab_runner_def lab_world_def two_rows_def calm_stages_def MotionSystem_init_def
  UVcontroller_init_def Let_def

lemma body_completed:
  "fst (run_body lab_runner (lab_world two_rows None (\<lambda>i. True)) True) = None
   \<and> uv_is_connected (uv_controller (fst (snd (run_body lab_runner (lab_world two_rows None (\<lambda>i. True)) True))))
   \<and> snd (snd (run_body lab_runner (lab_world two_rows None (\<lambda>i. True)) True))
       = [Motion_connect, Uv_connect, Move_to 0 0, Uv_on, Move_to 150 100, Cure_wait 3,
          Move_to 200 100, Cure_wait 3]"
  by (simp add: run_eval_defs)

lemma body_aborted:
  "fst (run_body lab_runner (lab_world two_rows (Some (In_cure 1)) (\<lambda>i. True)) True) = Some KeyboardInterrupt
   \<and> uv_is_connected (uv_controller (fst (snd (run_body lab_runner (lab_world two_rows (Some (In_cure 1)) (\<lambda>i. True)) True))))
   \<and> snd (snd (run_body lab_runner (lab_world two_rows (Some (In_cure 1)) (\<lambda>i. True)) True))
       = [Motion_connect, Uv_connect, Move_to 0 0, Uv_on, Move_to 150 100, Cure_wait 3]"
  by (simp add: run_eval_defs)

lemma body_failed:
  "fst (run_body lab_runner (lab_world two_rows None (\<lambda>i. i < 2)) True) = Some RuntimeError
   \<and> uv_is_connected (uv_controller (fst (snd (run_body lab_runner (lab_world two_rows None (\<lambda>i. i < 2)) True))))
   \<and> snd (snd (run_body lab_runner (lab_world two_rows None (\<lambda>i. i < 2)) True))
       = [Motion_connect, Uv_connect, Move_to 0 0, Uv_on, Move_to 150 100, Cure_wait 3,
          Move_to 200 100]"
  by (simp add: run_eval_defs)

lemma body_unloaded:
  "fst (run_body lab_runner (lab_world NoSuchFile None (\<lambda>i. True)) True) = Some RuntimeError
   \<and> \<not> uv_is_connected (uv_controller (fst (snd (run_body lab_runner (lab_world NoSuchFile None (\<lambda>i. True)) True))))
   \<and> snd (snd (run_body lab_runner (lab_world NoSuchFile None (\<lambda>i. True)) True)) = []"
  by (simp add: run_eval_defs)

text \<open>
  Claim C1 as stated fails when the coordinate file is missing: the run fails before
  any hardware is connected, and its cleanup skips the off command.
\<close>

theorem run_cleanup_counterexample:
  "outcome (run lab_runner (lab_world NoSuchFile None (\<lambda>i. True)) True) = Failed
   \<and> trace (run lab_runner (lab_world NoSuchFile None (\<lambda>i. True)) True)
       = [Cleanup, Uv_disconnect, Motion_disconnect]
   \<and> Uv_off \<notin> set (trace (run lab_runner (lab_world NoSuchFile None (\<lambda>i. True)) True))"
  using body_unloaded
  by (auto simp: run_def disconnect_hardware_def terminal_of_def split: prod.splits)

theorem run_cleanup_witness:
  "outcome (run lab_runner (lab_world two_rows None (\<lambda>i. True)) True) = Completed
   \<and> trace (run lab_runner (lab_world two_rows None (\<lambda>i. True)) True)
       = [Motion_connect, Uv_connect, Move_to 0 0, Uv_on, Move_to 150 100, Cure_wait 3,
          Move_to 200 100, Cure_wait 3, Cleanup, Uv_off, Uv_disconnect, Motion_disconnect]
   \<and> outcome (run lab_runner (lab_world two_rows (Some (In_cure 1)) (\<lambda>i. True)) True) = Aborted
   \<and> trace (run lab_runner (lab_world two_rows (Some (In_cure 1)) (\<lambda>i. True)) True)
       = [Motion_connect, Uv_connect, Move_to 0 0, Uv_on, Move_to 150 100, Cure_wait 3,
          Cleanup, Uv_off, Uv_disconnect, Motion_disconnect]
   \<and> outcome (run lab_runner (lab_world two_rows None (\<lambda>i. i < 2)) True) = Failed
   \<and> trace (run lab_runner (lab_world two_rows None (\<lambda>i. i < 2)) True)
       = [Motion_connect, Uv_connect, Move_to 0 0, Uv_on, Move_to 150 100, Cure_wait 3,
          Move_to 200 100, Cleanup, Uv_off, Uv_disconnect, Motion_disconnect]"
  using run_cleanup_exactly_once[of lab_runner "lab_world two_rows None (\<lambda>i. True)" True]
    run_cleanup_exactly_once[of lab_runner "lab_world two_rows (Some (In_cure 1)) (\<lambda>i. True)" True]
    run_cleanup_exactly_once[of lab_runner "lab_world two_rows None (\<lambda>i. i < 2)" True]
    body_completed body_aborted body_failed
  by (simp add: terminal_of_def)

section \<open>The objective of the routing model\<close>

lemma arcs_cost_return:
  assumes "0 < length coords"
  shows "visited \<noteq> [] \<Longrightarrow> list_all (\<lambda>i. i < length coords) visited \<Longrightarrow>
     arcs_cost (distance_callback coords) (visited @ [End (length coords)])
       = arcs_cost (int_distances coords) visited + int_distances coords (last visited) 0"
proof (induction visited rule: induct_list012)
  case 1
  then show ?case by simp
next
  case (2 a)
  then show ?case using assms
    by (simp add: distance_callback_def IndexToNode_def End_def)
next
  case (3 a b rest)
  then show ?case
    by (simp add: distance_callback_def IndexToNode_def)
qed

text \<open>
  Claim C6, as amended. For a route over a shape's points (the indices visited from the
  start, all of them nodes), the cost the solver minimises is the sum of the rounded
  Euclidean distances over the consecutive pairs of the visiting order plus the rounded
  distance from the last visited point back to point 0, the depot: the objective is
  that of a closed tour. The rounded distances are symmetric and zero from a point to
  itself.
\<close>

theorem route_cost_closes_the_tour:
  assumes "visited \<noteq> []" and "list_all (\<lambda>i. i < length coords) visited"
  shows "route_cost coords visited
           = open_tour_cost coords visited + int_distances coords (last visited) Start
         \<and> int_distances coords a b = int_distances coords b a
         \<and> int_distances coords a a = 0"
proof -
  from assms have "0 < length coords" by (cases visited) auto
  from arcs_cost_return[OF this assms] show ?thesis
    by (simp add: route_cost_def open_tour_cost_def Start_def int_distances_def euclidean_def
        power2_commute round_half_even_def)
qed

lemma sqrt_squares: "sqrt 9 = 3" "sqrt 16 = 4" "sqrt 25 = 5"
  by (rule real_sqrt_unique; simp)+

lemma round_half_even_int [simp]: "round_half_even (of_int k) = k"
  by (simp add: round_half_even_def)

lemma triangle_distances:
  "int_distances triangle 0 1 = 3" "int_distances triangle 1 2 = 4" "int_distances triangle 2 0 = 5"
  using round_half_even_int[of 3] round_half_even_int[of 4] round_half_even_int[of 5]
  by (simp_all add: int_distances_def euclidean_def triangle_def sqrt_squares)

text \<open>
  Claim C6 as stated fails on the triangle visited in the order 0, 1, 2: the
  consecutive pairs cost 3 + 4 = 7, and the objective is 12, the arc of length 5 from
  the last point back to the start being counted.
\<close>

theorem route_cost_counterexample:
  "open_tour_cost triangle [0, 1, 2] = 7 \<and> route_cost triangle [0, 1, 2] = 12"
  using triangle_distances
  by (simp add: open_tour_cost_def route_cost_def distance_callback_def IndexToNode_def End_def
      triangle_def)

theorem route_cost_witness:
  "route_cost triangle [0, 1, 2] = (3 + 4) + 5
   \<and> int_distances triangle 0 1 = int_distances triangle 1 0
   \<and> int_distances triangle 1 1 = 0"
proof -
  have o: "open_tour_cost triangle [0, 1, 2] = 3 + 4"
    using triangle_distances by (simp add: open_tour_cost_def)
  from route_cost_closes_the_tour[of "[0, 1, 2]" triangle 0 1]
       route_cost_closes_the_tour[of "[0, 1, 2]" triangle 1 1]
  show ?thesis
    using o triangle_distances by (simp add: triangle_def Start_def)
qed

section \<open>The progress event of a step\<close>

lemma round_half_even_nonneg: "0 \<le> x \<Longrightarrow> 0 \<le> round_half_even x"
  by (auto simp: round_half_even_def)

lemma fl_nonneg: "0 \<le> x \<Longrightarrow> 0 \<le> fl x"
  by (auto simp: fl_def Let_def sgn_if intro!: mult_nonneg_nonneg round_half_even_nonneg divide_nonneg_pos)

text \<open>
  Two evaluations of the percentage. The second is why the float operations are
  modelled with their rounding: \<open>29 / 100 * 100\<close> is just below 29 in double
  precision, and the percentage is 28.
\<close>

lemma percentage_2_of_3: "percentage_of 2 3 = 66"
  by code_simp

lemma percentage_29_of_100: "percentage_of 29 100 = 28"
  by code_simp

text \<open>
  Claim C5, as amended. For every step \<open>i\<close> of \<open>n\<close> (\<open>1 \<le> i \<le> n\<close>) the emitted
  event carries as percentage the double-precision product \<open>(i / n) * 100\<close> cut to an
  integer towards zero (rounded down, not to the nearest integer), a status holding
  the step and the target coordinates, and the remaining time
  \<open>(n - i) * (elapsed / i)\<close> as hours, minutes and seconds.
\<close>

theorem step_progress_truncates:
  assumes "1 \<le> i" and "i \<le> n"
  shows "percentage (step_progress i n row elapsed_time estimated_total_seconds)
           = \<lfloor>fl (fl (real i / real n) * 100)\<rfloor>
         \<and> status (step_progress i n row elapsed_time estimated_total_seconds)
           = Running_Step i n (row ! 0) (row ! 1)
         \<and> remaining (step_progress i n row elapsed_time estimated_total_seconds)
           = seconds_to_hms ((real n - real i) * (elapsed_time / real i))"
proof -
  have "0 \<le> fl (fl (real i / real n) * 100)"
    by (intro fl_nonneg mult_nonneg_nonneg) simp_all
  then show ?thesis
    using assms by (simp add: step_progress_def percentage_of_def py_int_def Let_def)
qed

text \<open>
  Claim C5 as stated fails at step 2 of 3: \<open>100 * 2 / 3\<close> rounds to 67, and the
  event carries 66.
\<close>

theorem step_progress_counterexample:
  "percentage (step_progress 2 3 [200, 100] 10 12) = 66 \<and> spec_percentage 2 3 = 67"
  using percentage_2_of_3
  by (simp add: step_progress_def spec_percentage_def round_def Let_def)

theorem step_progress_witness:
  "step_progress 2 3 [200, 100] 10 12
     = \<lparr>percentage = 66, status = Running_Step 2 3 200 100, remaining = (0, 0, 5)\<rparr>"
proof -
  have f: "\<lfloor>fl (fl (real 2 / real 3) * 100)\<rfloor> = 66"
    using percentage_2_of_3 fl_nonneg[of "fl (real 2 / real 3) * 100"] fl_nonneg[of "real 2 / real 3"]
    by (simp add: percentage_of_def py_int_def)
  have h: "seconds_to_hms ((real 3 - real 2) * (10 / real 2)) = (0, 0, 5)"
    by (simp add: seconds_to_hms_def round_half_even_def Let_def)
  from step_progress_truncates[of 2 3 "[200, 100]" 10 12] f h
  show ?thesis
    by (cases "step_progress 2 3 [200, 100] 10 12") (simp add: eval_nat_numeral)
qed

end
